theory Spec2Isabelle
  imports Complex_Main "HOL-Library.Multiset"
begin

section \<open>Python values and exceptions\<close>

text \<open>
  The alert engine (\<^verbatim>\<open>alert_engine.py\<close>) reads dynamically typed data: attributes of
  \<^verbatim>\<open>HostMetrics\<close> and \<^verbatim>\<open>ProcessSnapshot\<close> objects, entries of the VM dictionaries and
  the \<^verbatim>\<open>interval\<close> entry of the snapshot. A value is \<^verbatim>\<open>None\<close>, an \<^verbatim>\<open>int\<close> (unbounded;
  \<^verbatim>\<open>bool\<close> is a subclass of \<^verbatim>\<open>int\<close>), a \<^verbatim>\<open>float\<close>, or \<open>PObj\<close>: a non-empty \<^verbatim>\<open>dict\<close>,
  standing for a malformed entry (it is truthy, \<^verbatim>\<open>int()\<close> raises on it and so does every
  order comparison). Floats are modelled as reals: rounding, overflow and NaN are outside
  the model.
\<close>

datatype pyval = PNone | PInt int | PFloat real | PObj

datatype exn = TypeError | KeyError | ZeroDivisionError

text \<open>The numeric value of an \<^verbatim>\<open>int\<close> or \<^verbatim>\<open>float\<close>.\<close>

fun num_of :: "pyval \<Rightarrow> real option" where
  "num_of (PInt n) = Some (real_of_int n)"
| "num_of (PFloat r) = Some r"
| "num_of PNone = None"
| "num_of PObj = None"

text \<open>\<^verbatim>\<open>v >= thr\<close> for a numeric \<^verbatim>\<open>thr\<close>: Python compares \<^verbatim>\<open>int\<close> and \<^verbatim>\<open>float\<close>
  by value and raises \<^verbatim>\<open>TypeError\<close> for \<^verbatim>\<open>None\<close> and for a \<^verbatim>\<open>dict\<close>.\<close>

definition py_ge :: "pyval \<Rightarrow> real \<Rightarrow> exn + bool" where
  "py_ge v thr = (case num_of v of None \<Rightarrow> Inl TypeError | Some x \<Rightarrow> Inr (thr \<le> x))"

text \<open>Truthiness, and \<^verbatim>\<open>v or 0\<close>.\<close>

fun truthy :: "pyval \<Rightarrow> bool" where
  "truthy PNone = False"
| "truthy (PInt n) = (n \<noteq> 0)"
| "truthy (PFloat r) = (r \<noteq> 0)"
| "truthy PObj = True"

definition py_or0 :: "pyval \<Rightarrow> pyval" where
  "py_or0 v = (if truthy v then v else PInt 0)"

text \<open>\<^verbatim>\<open>int(v)\<close>: a \<^verbatim>\<open>float\<close> is truncated towards zero; \<^verbatim>\<open>None\<close> and a \<^verbatim>\<open>dict\<close>
  raise \<^verbatim>\<open>TypeError\<close>.\<close>

fun py_int :: "pyval \<Rightarrow> exn + int" where
  "py_int (PInt n) = Inr n"
| "py_int (PFloat r) = Inr (if 0 \<le> r then \<lfloor>r\<rfloor> else \<lceil>r\<rceil>)"
| "py_int PNone = Inl TypeError"
| "py_int PObj = Inl TypeError"

text \<open>\<^verbatim>\<open>a / b\<close> on two \<^verbatim>\<open>int\<close>s: true division, raising on a zero divisor.\<close>

definition py_truediv :: "int \<Rightarrow> int \<Rightarrow> exn + real" where
  "py_truediv a b = (if b = 0 then Inl ZeroDivisionError else Inr (real_of_int a / real_of_int b))"

text \<open>\<^verbatim>\<open>str(n)\<close> for an \<^verbatim>\<open>int\<close>, used in the alert keys.\<close>

definition digit_char :: "nat \<Rightarrow> char" where
  "digit_char d = char_of (48 + d)"

function show_nat :: "nat \<Rightarrow> string" where
  "show_nat n = (if n < 10 then [digit_char n] else show_nat (n div 10) @ [digit_char (n mod 10)])"
  by pat_completeness auto
termination
  by (relation "measure (\<lambda>n. n)") auto

declare show_nat.simps [simp del]

definition show_int :: "int \<Rightarrow> string" where
  "show_int i = (if i < 0 then CHR ''-'' # show_nat (nat (- i)) else show_nat (nat i))"

section \<open>Configuration, snapshots and engine state\<close>

text \<open>
  The configuration dictionary, with an absent key as \<open>None\<close>. A missing section
  (\<^verbatim>\<open>host_alerts\<close>, \<^verbatim>\<open>process_alerts\<close>, \<^verbatim>\<open>vm_alerts\<close>, \<^verbatim>\<open>email\<close>) reads as a section with
  every key absent, as \<^verbatim>\<open>self.config.get(section, {})\<close> does. Thresholds are numbers.
  Of the \<^verbatim>\<open>email\<close> section only the keys read outside the \<^verbatim>\<open>try\<close> of \<^verbatim>\<open>_send_email\<close> are
  kept: a missing \<^verbatim>\<open>from\<close> or \<^verbatim>\<open>to\<close> raises \<^verbatim>\<open>KeyError\<close> there.
\<close>

record config =
  alert_throttle_seconds :: "real option"
  poll_interval :: "real option"
  host_cpu_percent :: "real option"
  host_memory_percent :: "real option"
  proc_cpu_percent :: "real option"
  proc_memory_percent :: "real option"
  vm_cpu_percent :: "real option"
  vm_memory_percent :: "real option"
  vm_cpu_time_delta_ns :: "real option"
  email_enabled :: bool
  email_from :: "string option"
  email_to :: "string list option"

record host_metrics =
  h_cpu_percent :: pyval
  h_mem_percent :: pyval

record process_snapshot =
  pid :: int
  pname :: string
  cpu :: pyval
  p_mem_percent :: pyval

text \<open>A VM dictionary; a missing key and a key holding \<^verbatim>\<open>None\<close> are both \<open>PNone\<close>
  (\<^verbatim>\<open>vm.get(k, 0) or 0\<close> does not tell them apart), and \<^verbatim>\<open>vm.get("name")\<close> is a string
  or \<^verbatim>\<open>None\<close>.\<close>

record vm_record =
  vm_name :: "string option"
  maxMemKB :: pyval
  memKB :: pyval
  vcpus :: pyval
  cpuTime :: pyval

text \<open>The snapshot; \<open>interval\<close> is \<open>None\<close> when the key is absent and \<open>Some PNone\<close>
  when it is present and holds \<^verbatim>\<open>None\<close>.\<close>

record snapshot =
  host :: "host_metrics option"
  processes :: "process_snapshot list"
  vms :: "vm_record list"
  interval :: "pyval option"

text \<open>
  The text of an alert message is kept as the values its f-string formats.
\<close>

datatype message =
    HostCpuHigh pyval
  | HostMemHigh pyval
  | ProcCpu string int pyval
  | ProcMem string int pyval
  | VmCpuHigh "string option" real pyval
  | VmMemHigh "string option" real int int

record alert =
  subject :: string
  body :: message
  akey :: string

text \<open>
  The engine's two dictionaries, together with what the engine does to its environment:
  \<open>alerts\<close> is the sequence of \<^verbatim>\<open>logger.warning\<close> calls of \<^verbatim>\<open>_emit_alert\<close>, and \<open>tick\<close>
  counts the calls of \<^verbatim>\<open>time.time()\<close> made so far; the \<open>n\<close>-th call returns \<open>clk n\<close>
  for a clock \<open>clk\<close> given to every operation.
\<close>

record engine =
  last_alert_time :: "string \<rightharpoonup> real"
  last_vm_cpu_time :: "string option \<rightharpoonup> int"
  alerts :: "alert list"
  tick :: nat

type_synonym clock = "nat \<Rightarrow> real"

text \<open>The result of a block that may raise: the exception, if any, and the state it
  leaves behind.\<close>

type_synonym outcome = "exn option \<times> engine"

definition then_do :: "outcome \<Rightarrow> (engine \<Rightarrow> outcome) \<Rightarrow> outcome" where
  "then_do r f = (case r of (Some e, st) \<Rightarrow> (Some e, st) | (None, st) \<Rightarrow> f st)"

definition new_engine :: engine where
  "new_engine = \<lparr>last_alert_time = Map.empty, last_vm_cpu_time = Map.empty, alerts = [], tick = 0\<rparr>"

section \<open>The throttle gate\<close>

text \<open>\<^verbatim>\<open>_throttle_ok\<close>: two readings of the clock, the first compared, the second stored.\<close>

definition throttle_ok :: "config \<Rightarrow> clock \<Rightarrow> string \<Rightarrow> engine \<Rightarrow> bool \<times> engine" where
  "throttle_ok cfg clk key st =
     (let throttle = (case alert_throttle_seconds cfg of None \<Rightarrow> 60 | Some w \<Rightarrow> w);
          last = (case last_alert_time st key of None \<Rightarrow> 0 | Some t \<Rightarrow> t);
          t1 = clk (tick st);
          st1 = st\<lparr>tick := tick st + 1\<rparr>
      in if t1 - last < throttle then (False, st1)
         else (True, st1\<lparr>last_alert_time := (last_alert_time st1)(key \<mapsto> clk (tick st1)),
                         tick := tick st1 + 1\<rparr>))"

text \<open>A clock that stands still at \<open>now\<close>: both readings of one \<^verbatim>\<open>_throttle_ok\<close> call
  are then the \<open>now\<close> of the gate's contract \<^verbatim>\<open>allow(key, now, window)\<close>.\<close>

definition const_clock :: "real \<Rightarrow> clock" where
  "const_clock now = (\<lambda>n. now)"

text \<open>The empty configuration \<^verbatim>\<open>{}\<close>: every option at its default.\<close>

definition default_config :: config where
  "default_config =
     \<lparr>alert_throttle_seconds = None, poll_interval = None,
      host_cpu_percent = None, host_memory_percent = None,
      proc_cpu_percent = None, proc_memory_percent = None,
      vm_cpu_percent = None, vm_memory_percent = None, vm_cpu_time_delta_ns = None,
      email_enabled = False, email_from = None, email_to = None\<rparr>"

section \<open>The delta estimator\<close>

text \<open>\<^verbatim>\<open>_vm_cpu_percent_from_delta\<close>. The result is \<open>None\<close> for Python's \<^verbatim>\<open>None\<close>;
  \<^verbatim>\<open>interval_seconds <= 0\<close> raises \<^verbatim>\<open>TypeError\<close> on a value that is not a number.\<close>

definition vm_cpu_percent_from_delta ::
  "string option \<Rightarrow> int \<Rightarrow> pyval \<Rightarrow> engine \<Rightarrow> (exn + real option) \<times> engine" where
  "vm_cpu_percent_from_delta name cpu_time_ns interval_seconds st =
     (if interval_seconds = PNone then (Inr None, st)
      else case num_of interval_seconds of
        None \<Rightarrow> (Inl TypeError, st)
      | Some iv \<Rightarrow>
          if iv \<le> 0 then (Inr None, st)
          else
            (case last_vm_cpu_time st name of
               None \<Rightarrow>
                 (Inr None, st\<lparr>last_vm_cpu_time := (last_vm_cpu_time st)(name \<mapsto> cpu_time_ns)\<rparr>)
             | Some prev \<Rightarrow>
                 (let delta_ns = cpu_time_ns - prev;
                      st1 = st\<lparr>last_vm_cpu_time := (last_vm_cpu_time st)(name \<mapsto> cpu_time_ns)\<rparr>
                  in if delta_ns \<le> 0 then (Inr None, st1)
                     else (Inr (Some (((real_of_int delta_ns / 1000000000) / iv) * 100)), st1))))"

section \<open>Emitting alerts\<close>

text \<open>\<^verbatim>\<open>_send_email\<close>: returns at once when email is disabled; otherwise the headers are
  built outside the \<^verbatim>\<open>try\<close> (a missing \<^verbatim>\<open>from\<close> or \<^verbatim>\<open>to\<close> raises \<^verbatim>\<open>KeyError\<close>), and every
  failure of the SMTP exchange is caught and logged inside it.\<close>

definition send_email :: "config \<Rightarrow> exn option" where
  "send_email cfg =
     (if \<not> email_enabled cfg then None
      else if email_from cfg = None then Some KeyError
      else if email_to cfg = None then Some KeyError
      else None)"

text \<open>\<^verbatim>\<open>_emit_alert\<close>: the warning is logged, then the email is sent.\<close>

definition emit_alert :: "config \<Rightarrow> string \<Rightarrow> message \<Rightarrow> string \<Rightarrow> engine \<Rightarrow> outcome" where
  "emit_alert cfg subj msg key st =
     (send_email cfg, st\<lparr>alerts := alerts st @ [\<lparr>subject = subj, body = msg, akey = key\<rparr>]\<rparr>)"

text \<open>The block \<^verbatim>\<open>if self._throttle_ok(key): self._emit_alert(subject, msg, key)\<close>.\<close>

definition throttled_alert ::
  "config \<Rightarrow> clock \<Rightarrow> string \<Rightarrow> message \<Rightarrow> string \<Rightarrow> engine \<Rightarrow> outcome" where
  "throttled_alert cfg clk subj msg key st =
     (case throttle_ok cfg clk key st of
        (ok, st1) \<Rightarrow> if ok then emit_alert cfg subj msg key st1 else (None, st1))"

text \<open>The block \<^verbatim>\<open>if value >= thr: key = ...; if self._throttle_ok(key): ...\<close>, which
  \<^verbatim>\<open>check_and_alert\<close> writes out six times.\<close>

definition threshold_alert ::
  "config \<Rightarrow> clock \<Rightarrow> pyval \<Rightarrow> real \<Rightarrow> string \<Rightarrow> message \<Rightarrow> string \<Rightarrow> engine \<Rightarrow> outcome" where
  "threshold_alert cfg clk v thr subj msg key st =
     (case py_ge v thr of
        Inl e \<Rightarrow> (Some e, st)
      | Inr b \<Rightarrow> if b then throttled_alert cfg clk subj msg key st else (None, st))"

text \<open>\<^verbatim>\<open>section.get(option, 100)\<close>.\<close>

definition or_100 :: "real option \<Rightarrow> real" where
  "or_100 t = (case t of None \<Rightarrow> 100 | Some x \<Rightarrow> x)"

section \<open>Host checks\<close>

definition host_cpu_check :: "config \<Rightarrow> clock \<Rightarrow> host_metrics \<Rightarrow> engine \<Rightarrow> outcome" where
  "host_cpu_check cfg clk h st =
     threshold_alert cfg clk (h_cpu_percent h) (or_100 (host_cpu_percent cfg))
       ''Host CPU Alert'' (HostCpuHigh (h_cpu_percent h)) ''host_cpu'' st"

definition host_mem_check :: "config \<Rightarrow> clock \<Rightarrow> host_metrics \<Rightarrow> engine \<Rightarrow> outcome" where
  "host_mem_check cfg clk h st =
     threshold_alert cfg clk (h_mem_percent h) (or_100 (host_memory_percent cfg))
       ''Host Memory Alert'' (HostMemHigh (h_mem_percent h)) ''host_mem'' st"

text \<open>The body of the host \<^verbatim>\<open>try\<close>.\<close>

definition check_host :: "config \<Rightarrow> clock \<Rightarrow> host_metrics \<Rightarrow> engine \<Rightarrow> outcome" where
  "check_host cfg clk h st = then_do (host_cpu_check cfg clk h st) (host_mem_check cfg clk h)"

section \<open>Process checks\<close>

definition proc_cpu_check :: "config \<Rightarrow> clock \<Rightarrow> process_snapshot \<Rightarrow> engine \<Rightarrow> outcome" where
  "proc_cpu_check cfg clk p st =
     threshold_alert cfg clk (cpu p) (or_100 (proc_cpu_percent cfg))
       ''Process CPU Alert'' (ProcCpu (pname p) (pid p) (cpu p))
       (''proc_cpu_'' @ show_int (pid p)) st"

definition proc_mem_check :: "config \<Rightarrow> clock \<Rightarrow> process_snapshot \<Rightarrow> engine \<Rightarrow> outcome" where
  "proc_mem_check cfg clk p st =
     threshold_alert cfg clk (p_mem_percent p) (or_100 (proc_memory_percent cfg))
       ''Process Memory Alert'' (ProcMem (pname p) (pid p) (p_mem_percent p))
       (''proc_mem_'' @ show_int (pid p)) st"

text \<open>The \<^verbatim>\<open>for p in ...\<close> loop: an exception leaves the loop.\<close>

fun proc_loop :: "config \<Rightarrow> clock \<Rightarrow> process_snapshot list \<Rightarrow> engine \<Rightarrow> outcome" where
  "proc_loop cfg clk [] st = (None, st)"
| "proc_loop cfg clk (p # ps) st =
     then_do (then_do (proc_cpu_check cfg clk p st) (proc_mem_check cfg clk p))
       (proc_loop cfg clk ps)"

text \<open>
  \<^verbatim>\<open>sorted(procs, key=lambda x: x.cpu, reverse=True)\<close>: a stable sort, descending in
  \<^verbatim>\<open>cpu\<close>. With two or more records every record's key takes part in a comparison, so a
  key that is not a number raises \<^verbatim>\<open>TypeError\<close>; a list of fewer than two records is
  returned without any comparison.
\<close>

definition cpu_key :: "process_snapshot \<Rightarrow> real" where
  "cpu_key p = (case num_of (cpu p) of None \<Rightarrow> 0 | Some x \<Rightarrow> x)"

definition ranked_procs :: "process_snapshot list \<Rightarrow> process_snapshot list" where
  "ranked_procs procs = sort_key (\<lambda>p. - cpu_key p) procs"

definition sorted_by_cpu_desc :: "process_snapshot list \<Rightarrow> exn + process_snapshot list" where
  "sorted_by_cpu_desc procs =
     (if 2 \<le> length procs \<and> (\<exists>p \<in> set procs. num_of (cpu p) = None) then Inl TypeError
      else Inr (ranked_procs procs))"

text \<open>The body of the process \<^verbatim>\<open>try\<close>.\<close>

definition check_procs :: "config \<Rightarrow> clock \<Rightarrow> process_snapshot list \<Rightarrow> engine \<Rightarrow> outcome" where
  "check_procs cfg clk procs st =
     (case sorted_by_cpu_desc procs of
        Inl e \<Rightarrow> (Some e, st)
      | Inr ranked \<Rightarrow> proc_loop cfg clk (take 20 ranked) st)"

section \<open>VM checks\<close>

text \<open>\<^verbatim>\<open>f"{name}"\<close> for a name that is a string or \<^verbatim>\<open>None\<close>.\<close>

definition name_str :: "string option \<Rightarrow> string" where
  "name_str name = (case name of None \<Rightarrow> ''None'' | Some s \<Rightarrow> s)"

definition vm_cpu_check :: "config \<Rightarrow> clock \<Rightarrow> vm_record \<Rightarrow> real \<Rightarrow> engine \<Rightarrow> outcome" where
  "vm_cpu_check cfg clk vm cpu_percent st =
     threshold_alert cfg clk (PFloat cpu_percent) (or_100 (vm_cpu_percent cfg))
       ''VM CPU Alert'' (VmCpuHigh (vm_name vm) cpu_percent (vcpus vm))
       (''vm_cpu_'' @ name_str (vm_name vm)) st"

definition vm_mem_check ::
  "config \<Rightarrow> clock \<Rightarrow> vm_record \<Rightarrow> real \<Rightarrow> int \<Rightarrow> int \<Rightarrow> engine \<Rightarrow> outcome" where
  "vm_mem_check cfg clk vm mem_percent mem_kb max_mem_kb st =
     threshold_alert cfg clk (PFloat mem_percent) (or_100 (vm_memory_percent cfg))
       ''VM Memory Alert'' (VmMemHigh (vm_name vm) mem_percent mem_kb max_mem_kb)
       (''vm_mem_'' @ name_str (vm_name vm)) st"

text \<open>\<^verbatim>\<open>(mem_kb / max_mem_kb) * 100.0 if max_mem_kb > 0 else None\<close>.\<close>

definition vm_mem_percent :: "int \<Rightarrow> int \<Rightarrow> exn + real option" where
  "vm_mem_percent mem_kb max_mem_kb =
     (if 0 < max_mem_kb
      then (case py_truediv mem_kb max_mem_kb of Inl e \<Rightarrow> Inl e | Inr q \<Rightarrow> Inr (Some (q * 100)))
      else Inr None)"

text \<open>The branch on \<^verbatim>\<open>cpu_time_delta_ns\<close>: it reads the stored value and does nothing.\<close>

definition cpu_time_delta_branch :: "config \<Rightarrow> vm_record \<Rightarrow> engine \<Rightarrow> outcome" where
  "cpu_time_delta_branch cfg vm st =
     (if vm_cpu_time_delta_ns cfg \<noteq> None
      then (let prev = last_vm_cpu_time st (vm_name vm) in (None, st))
      else (None, st))"

text \<open>The locals \<^verbatim>\<open>max_mem_kb\<close>, \<^verbatim>\<open>mem_kb\<close>, \<^verbatim>\<open>cpu_time_ns\<close> and \<^verbatim>\<open>mem_percent\<close> of one
  turn of the VM loop, computed in this order before the engine's state is touched.\<close>

definition vm_locals :: "vm_record \<Rightarrow> exn + (int \<times> int \<times> int \<times> real option)" where
  "vm_locals vm =
     (case py_int (py_or0 (maxMemKB vm)) of
        Inl e \<Rightarrow> Inl e
      | Inr max_mem_kb \<Rightarrow>
     (case py_int (py_or0 (memKB vm)) of
        Inl e \<Rightarrow> Inl e
      | Inr mem_kb \<Rightarrow>
     (case py_int (py_or0 (cpuTime vm)) of
        Inl e \<Rightarrow> Inl e
      | Inr cpu_time_ns \<Rightarrow>
     (case vm_mem_percent mem_kb max_mem_kb of
        Inl e \<Rightarrow> Inl e
      | Inr mem_percent \<Rightarrow> Inr (max_mem_kb, mem_kb, cpu_time_ns, mem_percent)))))"

text \<open>The three \<^verbatim>\<open>if\<close> blocks that follow the estimator call: CPU alert, memory alert,
  and the branch on \<^verbatim>\<open>cpu_time_delta_ns\<close>.\<close>

definition vm_alert_checks ::
  "config \<Rightarrow> clock \<Rightarrow> vm_record \<Rightarrow> real option \<Rightarrow> real option \<Rightarrow> int \<Rightarrow> int \<Rightarrow> engine \<Rightarrow> outcome"
  where
  "vm_alert_checks cfg clk vm cpu_percent mem_percent mem_kb max_mem_kb st1 =
     then_do
       (then_do
          (case cpu_percent of
             None \<Rightarrow> (None, st1)
           | Some c \<Rightarrow> vm_cpu_check cfg clk vm c st1)
          (\<lambda>st2. (case mem_percent of
                     None \<Rightarrow> (None, st2)
                   | Some m \<Rightarrow> vm_mem_check cfg clk vm m mem_kb max_mem_kb st2)))
       (cpu_time_delta_branch cfg vm)"

text \<open>The body of the \<^verbatim>\<open>try\<close> inside the VM loop.\<close>

definition vm_step :: "config \<Rightarrow> clock \<Rightarrow> pyval \<Rightarrow> vm_record \<Rightarrow> engine \<Rightarrow> outcome" where
  "vm_step cfg clk ival vm st =
     (case vm_locals vm of
        Inl e \<Rightarrow> (Some e, st)
      | Inr (max_mem_kb, mem_kb, cpu_time_ns, mem_percent) \<Rightarrow>
          (case vm_cpu_percent_from_delta (vm_name vm) cpu_time_ns ival st of
             (Inl e, st1) \<Rightarrow> (Some e, st1)
           | (Inr cpu_percent, st1) \<Rightarrow>
               vm_alert_checks cfg clk vm cpu_percent mem_percent mem_kb max_mem_kb st1))"

text \<open>The \<^verbatim>\<open>for vm in vms\<close> loop: an exception of one step is caught and the loop goes on
  from the state the step left.\<close>

fun check_vms :: "config \<Rightarrow> clock \<Rightarrow> pyval \<Rightarrow> vm_record list \<Rightarrow> engine \<Rightarrow> engine" where
  "check_vms cfg clk ival [] st = st"
| "check_vms cfg clk ival (vm # rest) st =
     check_vms cfg clk ival rest (snd (vm_step cfg clk ival vm st))"

section \<open>One evaluation\<close>

text \<open>\<^verbatim>\<open>snapshot.get("interval", self.config.get("poll_interval", 2))\<close>.\<close>

definition snapshot_interval :: "config \<Rightarrow> snapshot \<Rightarrow> pyval" where
  "snapshot_interval cfg snap =
     (case interval snap of
        None \<Rightarrow> (case poll_interval cfg of None \<Rightarrow> PInt 2 | Some r \<Rightarrow> PFloat r)
      | Some v \<Rightarrow> v)"

text \<open>The host phase and the process phase, each with its \<^verbatim>\<open>except Exception\<close>.\<close>

definition host_phase :: "config \<Rightarrow> clock \<Rightarrow> snapshot \<Rightarrow> engine \<Rightarrow> engine" where
  "host_phase cfg clk snap st =
     (case host snap of None \<Rightarrow> st | Some h \<Rightarrow> snd (check_host cfg clk h st))"

definition proc_phase :: "config \<Rightarrow> clock \<Rightarrow> snapshot \<Rightarrow> engine \<Rightarrow> engine" where
  "proc_phase cfg clk snap st = snd (check_procs cfg clk (processes snap) st)"

definition vm_phase :: "config \<Rightarrow> clock \<Rightarrow> snapshot \<Rightarrow> engine \<Rightarrow> engine" where
  "vm_phase cfg clk snap st = check_vms cfg clk (snapshot_interval cfg snap) (vms snap) st"

definition check_and_alert :: "config \<Rightarrow> clock \<Rightarrow> snapshot \<Rightarrow> engine \<Rightarrow> engine" where
  "check_and_alert cfg clk snap st =
     vm_phase cfg clk snap (proc_phase cfg clk snap (host_phase cfg clk snap st))"

section \<open>Observing one evaluation\<close>

text \<open>The alerts emitted between two states of the engine.\<close>

definition new_alerts :: "engine \<Rightarrow> engine \<Rightarrow> alert list" where
  "new_alerts st st' = drop (length (alerts st)) (alerts st')"

text \<open>The second state has the alerts of the first and, after them, only alerts that
  satisfy \<open>P\<close>.\<close>

definition emits_only :: "(alert \<Rightarrow> bool) \<Rightarrow> engine \<Rightarrow> engine \<Rightarrow> bool" where
  "emits_only P st st' =
     (take (length (alerts st)) (alerts st') = alerts st \<and> list_all P (new_alerts st st'))"





text \<open>A VM memory alert whose message shows a positive \<^verbatim>\<open>max_mem_kb\<close>; every other
  alert passes.\<close>

definition mem_alert_ok :: "alert \<Rightarrow> bool" where
  "mem_alert_ok a =
     (subject a \<noteq> ''VM Memory Alert'' \<or>
      (case body a of VmMemHigh n mp mk mx \<Rightarrow> 0 < mx | _ \<Rightarrow> False))"

subsection \<open>Sample inputs\<close>

text \<open>Twenty-two processes with PIDs 1 to 22 in input order: the first twenty-one at 50
  percent CPU, the last at 99 percent. All of them reach a CPU threshold of 50.\<close>

definition sample_proc :: "int \<Rightarrow> int \<Rightarrow> process_snapshot" where
  "sample_proc i c = \<lparr>pid = i, pname = ''worker'', cpu = PInt c, p_mem_percent = PFloat 0\<rparr>"



text \<open>A VM using half of its memory, one whose \<^verbatim>\<open>maxMemKB\<close> is 0, and one whose
  \<^verbatim>\<open>cpuTime\<close> is not a number.\<close>

definition vm_half :: vm_record where
  "vm_half = \<lparr>vm_name = Some ''vmA'', maxMemKB = PInt 100, memKB = PInt 50,
              vcpus = PInt 2, cpuTime = PInt 1000000000\<rparr>"

definition vm_no_max :: vm_record where
  "vm_no_max = \<lparr>vm_name = Some ''vmB'', maxMemKB = PInt 0, memKB = PInt 4096,
                vcpus = PInt 1, cpuTime = PInt 1000000000\<rparr>"

definition vm_bad :: vm_record where
  "vm_bad = \<lparr>vm_name = Some ''vmC'', maxMemKB = PInt 100, memKB = PInt 100,
             vcpus = PInt 1, cpuTime = PObj\<rparr>"

text \<open>A host whose \<^verbatim>\<open>cpu_percent\<close> is not a number, a host at 90 percent CPU, and a
  snapshot whose \<^verbatim>\<open>interval\<close> key holds \<^verbatim>\<open>None\<close>.\<close>

definition bad_host :: host_metrics where
  "bad_host = \<lparr>h_cpu_percent = PObj, h_mem_percent = PFloat 99\<rparr>"


definition null_interval_snapshot :: snapshot where
  "null_interval_snapshot =
     \<lparr>host = Some bad_host, processes = [], vms = [vm_bad, vm_half], interval = Some PNone\<rparr>"


text \<open>A configuration with the VM memory threshold at 50, and one with the host CPU
  threshold at 90.\<close>

definition mem_config :: config where
  "mem_config = default_config\<lparr>vm_memory_percent := Some 50\<rparr>"


section \<open>The delta estimator: baselines and rates\<close>

text \<open>
  C1 (as stated): after every call of the estimator the stored baseline of the name is
  the cumulative value passed in, also when the interval is absent, zero or negative.
  The code returns before it touches the baseline in those cases: after a first sample
  of 1000000000 at interval 2.0, a sample of 3000000000 at interval 0 returns \<^verbatim>\<open>None\<close>
  and the baseline is still 1000000000.
\<close>

theorem estimate_zero_interval_keeps_baseline:
  "fst (vm_cpu_percent_from_delta (Some ''vmA'') 3000000000 (PInt 0)
          (snd (vm_cpu_percent_from_delta (Some ''vmA'') 1000000000 (PFloat 2) new_engine)))
     = Inr None
   \<and> last_vm_cpu_time
        (snd (vm_cpu_percent_from_delta (Some ''vmA'') 3000000000 (PInt 0)
           (snd (vm_cpu_percent_from_delta (Some ''vmA'') 1000000000 (PFloat 2) new_engine))))
        (Some ''vmA'') = Some 1000000000
   \<and> last_vm_cpu_time
        (snd (vm_cpu_percent_from_delta (Some ''vmA'') 3000000000 (PInt 0)
           (snd (vm_cpu_percent_from_delta (Some ''vmA'') 1000000000 (PFloat 2) new_engine))))
        (Some ''vmA'') \<noteq> Some 3000000000
   \<and> last_vm_cpu_time
        (snd (vm_cpu_percent_from_delta (Some ''vmA'') 1000000000 PNone new_engine))
        (Some ''vmA'') = None"
  by (simp add: vm_cpu_percent_from_delta_def new_engine_def)

text \<open>
  C1 (amended): after a call with a positive interval the stored baseline of the name is
  the cumulative value passed in; a call whose interval is \<^verbatim>\<open>None\<close>, zero or negative
  returns \<^verbatim>\<open>None\<close> and leaves the whole state, the baseline included, as it was.
\<close>

theorem estimate_baseline:
  "(num_of iv = Some x \<and> 0 < x \<longrightarrow>
      last_vm_cpu_time (snd (vm_cpu_percent_from_delta name v iv st)) name = Some v)
   \<and> (iv = PNone \<or> (num_of iv = Some x \<and> x \<le> 0) \<longrightarrow>
      vm_cpu_percent_from_delta name v iv st = (Inr None, st))"
  by (auto simp: vm_cpu_percent_from_delta_def Let_def split: option.splits)

theorem estimate_baseline_witness:
  "last_vm_cpu_time
     (snd (vm_cpu_percent_from_delta (Some ''vmA'') 1000000000 (PFloat 2) new_engine))
     (Some ''vmA'') = Some 1000000000
   \<and> vm_cpu_percent_from_delta (Some ''vmA'') 1000000000 (PInt 0) new_engine
       = (Inr None, new_engine)
   \<and> vm_cpu_percent_from_delta (Some ''vmA'') 1000000000 PNone new_engine
       = (Inr None, new_engine)"
  using estimate_baseline [of "PFloat 2" 2 "Some ''vmA''" 1000000000 new_engine]
    estimate_baseline [of "PInt 0" 0 "Some ''vmA''" 1000000000 new_engine]
    estimate_baseline [of PNone 0 "Some ''vmA''" 1000000000 new_engine]
  by simp

text \<open>
  C3: with a positive interval, the first call for a name stores the cumulative value and
  returns \<^verbatim>\<open>None\<close>; a later call with a strictly larger value returns
  \<open>(delta_ns / 1e9) / interval_seconds * 100\<close>, whatever its size. On a fresh estimator
  1000000000 at 2.0 gives \<^verbatim>\<open>None\<close>, then 3000000000 at 2.0 gives 100, and 11000000000 at
  2.0 after that gives 400.
\<close>

theorem estimate_first_sample_then_rate:
  "(num_of iv = Some x \<and> 0 < x \<and> last_vm_cpu_time st name = None \<longrightarrow>
      vm_cpu_percent_from_delta name v iv st
        = (Inr None, st\<lparr>last_vm_cpu_time := (last_vm_cpu_time st)(name \<mapsto> v)\<rparr>))
   \<and> (num_of iv = Some x \<and> 0 < x \<and> last_vm_cpu_time st name = Some prev \<and> prev < v \<longrightarrow>
      vm_cpu_percent_from_delta name v iv st
        = (Inr (Some ((real_of_int (v - prev) / 1000000000) / x * 100)),
           st\<lparr>last_vm_cpu_time := (last_vm_cpu_time st)(name \<mapsto> v)\<rparr>))
   \<and> fst (vm_cpu_percent_from_delta (Some ''vmA'') 1000000000 (PFloat 2) new_engine) = Inr None
   \<and> fst (vm_cpu_percent_from_delta (Some ''vmA'') 3000000000 (PFloat 2)
        (snd (vm_cpu_percent_from_delta (Some ''vmA'') 1000000000 (PFloat 2) new_engine)))
       = Inr (Some 100)
   \<and> fst (vm_cpu_percent_from_delta (Some ''vmA'') 11000000000 (PFloat 2)
        (snd (vm_cpu_percent_from_delta (Some ''vmA'') 3000000000 (PFloat 2)
          (snd (vm_cpu_percent_from_delta (Some ''vmA'') 1000000000 (PFloat 2) new_engine)))))
       = Inr (Some 400)"
  by (auto simp: vm_cpu_percent_from_delta_def Let_def new_engine_def)

theorem estimate_first_sample_then_rate_witness:
  "vm_cpu_percent_from_delta (Some ''vmB'') 7 (PInt 1) new_engine
     = (Inr None, new_engine\<lparr>last_vm_cpu_time := [Some ''vmB'' \<mapsto> 7]\<rparr>)
   \<and> vm_cpu_percent_from_delta (Some ''vmB'') 5000000007 (PInt 1)
        (new_engine\<lparr>last_vm_cpu_time := [Some ''vmB'' \<mapsto> 7]\<rparr>)
     = (Inr (Some 500), new_engine\<lparr>last_vm_cpu_time := [Some ''vmB'' \<mapsto> 5000000007]\<rparr>)"
  using estimate_first_sample_then_rate
      [of "PInt 1" 1 new_engine "Some ''vmB''" 7 0]
    estimate_first_sample_then_rate
      [of "PInt 1" 1 "new_engine\<lparr>last_vm_cpu_time := [Some ''vmB'' \<mapsto> 7]\<rparr>"
          "Some ''vmB''" 5000000007 7]
  by (simp add: new_engine_def)

text \<open>
  C4 (as stated): whenever a baseline exists and the new cumulative value is not above
  it, the estimator returns \<^verbatim>\<open>None\<close> and the baseline becomes the new value. With a
  baseline of 3000000000, a sample of 500000000 at interval 0 returns \<^verbatim>\<open>None\<close> and the
  baseline stays 3000000000.
\<close>

theorem estimate_reset_zero_interval:
  "fst (vm_cpu_percent_from_delta (Some ''vmA'') 500000000 (PInt 0)
          (new_engine\<lparr>last_vm_cpu_time := [Some ''vmA'' \<mapsto> 3000000000]\<rparr>)) = Inr None
   \<and> last_vm_cpu_time
        (snd (vm_cpu_percent_from_delta (Some ''vmA'') 500000000 (PInt 0)
           (new_engine\<lparr>last_vm_cpu_time := [Some ''vmA'' \<mapsto> 3000000000]\<rparr>)))
        (Some ''vmA'') = Some 3000000000
   \<and> last_vm_cpu_time
        (snd (vm_cpu_percent_from_delta (Some ''vmA'') 500000000 (PInt 0)
           (new_engine\<lparr>last_vm_cpu_time := [Some ''vmA'' \<mapsto> 3000000000]\<rparr>)))
        (Some ''vmA'') \<noteq> Some 500000000"
  by (simp add: vm_cpu_percent_from_delta_def new_engine_def)

text \<open>
  C4 (amended): when the interval is positive, a baseline exists and the new cumulative
  value minus the baseline is at most 0, the estimator returns \<^verbatim>\<open>None\<close> and the baseline
  becomes the new value; 500000000 at 2.0 after 3000000000 returns \<^verbatim>\<open>None\<close> and leaves
  the baseline 500000000.
\<close>

theorem estimate_reset:
  "(num_of iv = Some x \<and> 0 < x \<and> last_vm_cpu_time st name = Some prev \<and> v - prev \<le> 0 \<longrightarrow>
      vm_cpu_percent_from_delta name v iv st
        = (Inr None, st\<lparr>last_vm_cpu_time := (last_vm_cpu_time st)(name \<mapsto> v)\<rparr>))
   \<and> vm_cpu_percent_from_delta (Some ''vmA'') 500000000 (PFloat 2)
        (new_engine\<lparr>last_vm_cpu_time := [Some ''vmA'' \<mapsto> 3000000000]\<rparr>)
     = (Inr None, new_engine\<lparr>last_vm_cpu_time := [Some ''vmA'' \<mapsto> 500000000]\<rparr>)"
  by (auto simp: vm_cpu_percent_from_delta_def Let_def new_engine_def)

theorem estimate_reset_witness:
  "vm_cpu_percent_from_delta (Some ''vmB'') 9 (PFloat 2)
     (new_engine\<lparr>last_vm_cpu_time := [Some ''vmB'' \<mapsto> 9]\<rparr>)
   = (Inr None, new_engine\<lparr>last_vm_cpu_time := [Some ''vmB'' \<mapsto> 9]\<rparr>)"
  using estimate_reset
      [of "PFloat 2" 2 "new_engine\<lparr>last_vm_cpu_time := [Some ''vmB'' \<mapsto> 9]\<rparr>"
          "Some ''vmB''" 9 9]
  by (simp add: new_engine_def)

section \<open>The throttle gate: when it opens\<close>

text \<open>
  C2 (as stated): the gate returns true and records \<open>now\<close> whenever the key has no
  earlier emission. The code reads a missing entry as time 0: with the default window
  of 60 seconds a fresh key asked at \<open>now = 10\<close> is refused and nothing is recorded,
  and the calls at 10, 15 and 70 return false, false, true.
\<close>

theorem throttle_fresh_key_refused:
  "last_alert_time new_engine ''host_cpu'' = None
   \<and> fst (throttle_ok default_config (const_clock 10) ''host_cpu'' new_engine) = False
   \<and> last_alert_time (snd (throttle_ok default_config (const_clock 10) ''host_cpu'' new_engine))
        ''host_cpu'' = None
   \<and> fst (throttle_ok default_config (const_clock 15) ''host_cpu''
        (snd (throttle_ok default_config (const_clock 10) ''host_cpu'' new_engine))) = False
   \<and> fst (throttle_ok default_config (const_clock 70) ''host_cpu''
        (snd (throttle_ok default_config (const_clock 15) ''host_cpu''
          (snd (throttle_ok default_config (const_clock 10) ''host_cpu'' new_engine))))) = True"
  by (simp add: throttle_ok_def default_config_def const_clock_def new_engine_def Let_def)

text \<open>
  C2 (amended): with \<open>last\<close> the stored emission time of the key, or 0 when there is
  none, the gate returns true and records \<open>now\<close> for the key when
  \<open>now - last \<ge> window\<close>, and otherwise returns false and leaves the stored times
  unchanged. Consequently, for a fresh key and a window \<open>w \<le> t\<close>, the calls at \<open>t\<close>,
  at \<open>t + e\<close> with \<open>e < w\<close>, and at \<open>t + w\<close> return true, false, true.
\<close>

theorem throttle_ok_contract:
  "throttle_ok cfg (const_clock now) key st =
     (if (case alert_throttle_seconds cfg of None \<Rightarrow> 60 | Some w \<Rightarrow> w)
           \<le> now - (case last_alert_time st key of None \<Rightarrow> 0 | Some t \<Rightarrow> t)
      then (True, st\<lparr>last_alert_time := (last_alert_time st)(key \<mapsto> now), tick := tick st + 2\<rparr>)
      else (False, st\<lparr>tick := tick st + 1\<rparr>))
   \<and> (alert_throttle_seconds cfg = Some w \<and> last_alert_time st key = None \<and> w \<le> t \<and> e < w \<longrightarrow>
        fst (throttle_ok cfg (const_clock t) key st) = True
      \<and> fst (throttle_ok cfg (const_clock (t + e)) key
               (snd (throttle_ok cfg (const_clock t) key st))) = False
      \<and> fst (throttle_ok cfg (const_clock (t + w)) key
               (snd (throttle_ok cfg (const_clock (t + e)) key
                 (snd (throttle_ok cfg (const_clock t) key st))))) = True)"
  by (simp add: throttle_ok_def const_clock_def Let_def)

theorem throttle_ok_contract_witness:
  "throttle_ok (default_config\<lparr>alert_throttle_seconds := Some 60\<rparr>) (const_clock 1000)
       ''host_cpu'' new_engine
     = (True, new_engine\<lparr>last_alert_time := [''host_cpu'' \<mapsto> 1000], tick := 2\<rparr>)
   \<and> fst (throttle_ok (default_config\<lparr>alert_throttle_seconds := Some 60\<rparr>)
        (const_clock (1000 + 5)) ''host_cpu''
        (snd (throttle_ok (default_config\<lparr>alert_throttle_seconds := Some 60\<rparr>)
           (const_clock 1000) ''host_cpu'' new_engine))) = False
   \<and> fst (throttle_ok (default_config\<lparr>alert_throttle_seconds := Some 60\<rparr>)
        (const_clock (1000 + 60)) ''host_cpu''
        (snd (throttle_ok (default_config\<lparr>alert_throttle_seconds := Some 60\<rparr>)
           (const_clock (1000 + 5)) ''host_cpu''
           (snd (throttle_ok (default_config\<lparr>alert_throttle_seconds := Some 60\<rparr>)
              (const_clock 1000) ''host_cpu'' new_engine))))) = True"
  using throttle_ok_contract
      [of "default_config\<lparr>alert_throttle_seconds := Some 60\<rparr>" 1000 "''host_cpu''"
          new_engine 60 1000 5]
  by (simp add: new_engine_def default_config_def throttle_ok_def const_clock_def Let_def)

section \<open>What one evaluation can emit\<close>

text \<open>\<open>emits_only P\<close> is reflexive and transitive, and every block of the engine
  satisfies it for each \<open>P\<close> that holds of the alerts the block can build.\<close>

lemma emits_only_iff:
  "emits_only P st st' \<longleftrightarrow> (\<exists>new. alerts st' = alerts st @ new \<and> (\<forall>a \<in> set new. P a))"
proof
  assume e: "emits_only P st st'"
  have "alerts st' = take (length (alerts st)) (alerts st') @ drop (length (alerts st)) (alerts st')"
    by simp
  with e have "alerts st' = alerts st @ new_alerts st st'"
    by (simp add: emits_only_def new_alerts_def)
  moreover from e have "\<forall>a \<in> set (new_alerts st st'). P a"
    by (simp add: emits_only_def list_all_iff)
  ultimately show "\<exists>new. alerts st' = alerts st @ new \<and> (\<forall>a \<in> set new. P a)"
    by blast
next
  assume "\<exists>new. alerts st' = alerts st @ new \<and> (\<forall>a \<in> set new. P a)"
  then show "emits_only P st st'"
    by (auto simp: emits_only_def new_alerts_def list_all_iff)
qed

lemma emits_only_refl: "emits_only P st st"
  by (simp add: emits_only_iff)

lemma emits_only_trans:
  "emits_only P a b \<Longrightarrow> emits_only P b c \<Longrightarrow> emits_only P a c"
  by (auto simp: emits_only_iff)


lemma emits_only_new_alerts:
  "emits_only P st st' \<Longrightarrow> a \<in> set (new_alerts st st') \<Longrightarrow> P a"
  by (auto simp: emits_only_iff new_alerts_def)

lemma throttle_ok_alerts: "alerts (snd (throttle_ok cfg clk key st)) = alerts st"
  by (simp add: throttle_ok_def Let_def)

lemma throttled_alert_emits:
  "P \<lparr>subject = subj, body = msg, akey = key\<rparr> \<Longrightarrow>
   emits_only P st (snd (throttled_alert cfg clk subj msg key st))"
  using throttle_ok_alerts [of cfg clk key st]
  by (auto simp: throttled_alert_def emit_alert_def emits_only_iff split: prod.splits)

lemma threshold_alert_emits:
  "P \<lparr>subject = subj, body = msg, akey = key\<rparr> \<Longrightarrow>
   emits_only P st (snd (threshold_alert cfg clk v thr subj msg key st))"
  by (auto simp: threshold_alert_def throttled_alert_emits emits_only_refl split: sum.splits)

lemma then_do_emits:
  "emits_only P st (snd r) \<Longrightarrow> (\<And>s. emits_only P s (snd (f s))) \<Longrightarrow>
   emits_only P st (snd (then_do r f))"
  by (cases r) (auto simp: then_do_def intro: emits_only_trans split: option.splits)












lemma threshold_alert_exn:
  "fst (threshold_alert cfg clk v thr subj msg key st) \<noteq> Some ZeroDivisionError"
  by (auto simp: threshold_alert_def throttled_alert_def py_ge_def emit_alert_def send_email_def
      split: option.splits prod.splits)

lemma threshold_alert_baseline:
  "last_vm_cpu_time (snd (threshold_alert cfg clk v thr subj msg key st)) = last_vm_cpu_time st"
  by (auto simp: threshold_alert_def throttled_alert_def py_ge_def emit_alert_def
      throttle_ok_def Let_def split: option.splits)

lemma delta_branch_id: "then_do r (cpu_time_delta_branch cfg vm) = r"
  by (cases r) (auto simp: then_do_def cpu_time_delta_branch_def split: option.splits)


lemma emits_only_same: "alerts b = alerts a \<Longrightarrow> emits_only P a b"
  by (simp add: emits_only_iff)

lemma estimate_alerts:
  "alerts (snd (vm_cpu_percent_from_delta name v iv st)) = alerts st"
  by (auto simp: vm_cpu_percent_from_delta_def Let_def split: option.splits)

lemma delta_branch_snd: "snd (cpu_time_delta_branch cfg vm st) = st"
  by (simp add: cpu_time_delta_branch_def)

lemma vm_mem_percent_Some: "vm_mem_percent mk mx = Inr (Some m) \<Longrightarrow> 0 < mx"
  by (auto simp: vm_mem_percent_def split: if_splits)

lemma vm_mem_percent_exn: "vm_mem_percent mk mx \<noteq> Inl e"
  by (auto simp: vm_mem_percent_def py_truediv_def)

lemma vm_locals_max_pos: "vm_locals vm = Inr (mx, mk, ct, Some m) \<Longrightarrow> 0 < mx"
  by (auto simp: vm_locals_def split: sum.splits dest: vm_mem_percent_Some)

lemma vm_alert_checks_emits:
  assumes c: "\<And>c. cp = Some c \<Longrightarrow>
                 P \<lparr>subject = ''VM CPU Alert'', body = VmCpuHigh (vm_name vm) c (vcpus vm),
                       akey = ''vm_cpu_'' @ name_str (vm_name vm)\<rparr>"
    and m: "\<And>m. mp = Some m \<Longrightarrow>
              P \<lparr>subject = ''VM Memory Alert'', body = VmMemHigh (vm_name vm) m mk mx,
                 akey = ''vm_mem_'' @ name_str (vm_name vm)\<rparr>"
  shows "emits_only P s (snd (vm_alert_checks cfg clk vm cp mp mk mx s))"
proof -
  have cpu: "emits_only P s (snd (case cp of None \<Rightarrow> (None, s) | Some c \<Rightarrow> vm_cpu_check cfg clk vm c s))"
  proof (cases cp)
    case None
    then show ?thesis by (simp add: emits_only_refl)
  next
    case (Some x)
    have "emits_only P s (snd (vm_cpu_check cfg clk vm x s))"
      unfolding vm_cpu_check_def by (rule threshold_alert_emits) (rule c [OF Some])
    with Some show ?thesis by simp
  qed
  have mem: "\<And>s2. emits_only P s2
      (snd (case mp of None \<Rightarrow> (None, s2) | Some x \<Rightarrow> vm_mem_check cfg clk vm x mk mx s2))"
  proof -
    fix s2
    show "emits_only P s2
      (snd (case mp of None \<Rightarrow> (None, s2) | Some x \<Rightarrow> vm_mem_check cfg clk vm x mk mx s2))"
    proof (cases mp)
      case None
      then show ?thesis by (simp add: emits_only_refl)
    next
      case (Some x)
      have "emits_only P s2 (snd (vm_mem_check cfg clk vm x mk mx s2))"
        unfolding vm_mem_check_def by (rule threshold_alert_emits) (rule m [OF Some])
      with Some show ?thesis by simp
    qed
  qed
  have br: "\<And>s3. emits_only P s3 (snd (cpu_time_delta_branch cfg vm s3))"
    by (simp add: delta_branch_snd emits_only_refl)
  show ?thesis
    unfolding vm_alert_checks_def
    by (intro then_do_emits cpu mem br)
qed

lemma vm_step_emits:
  assumes c: "\<And>c. P \<lparr>subject = ''VM CPU Alert'', body = VmCpuHigh (vm_name vm) c (vcpus vm),
                       akey = ''vm_cpu_'' @ name_str (vm_name vm)\<rparr>"
    and m: "\<And>m mk mx. 0 < mx \<Longrightarrow>
              P \<lparr>subject = ''VM Memory Alert'', body = VmMemHigh (vm_name vm) m mk mx,
                 akey = ''vm_mem_'' @ name_str (vm_name vm)\<rparr>"
  shows "emits_only P st (snd (vm_step cfg clk ival vm st))"
proof (cases "vm_locals vm")
  case (Inl e)
  then show ?thesis by (simp add: vm_step_def emits_only_refl)
next
  case (Inr t)
  obtain mx mk ct mp where t: "t = (mx, mk, ct, mp)" by (cases t) auto
  obtain r s1 where est: "vm_cpu_percent_from_delta (vm_name vm) ct ival st = (r, s1)"
    by (cases "vm_cpu_percent_from_delta (vm_name vm) ct ival st") auto
  have s1: "emits_only P st s1"
    using estimate_alerts [of "vm_name vm" ct ival st] est by (simp add: emits_only_same)
  show ?thesis
  proof (cases r)
    case (Inl e)
    with Inr t est s1 show ?thesis by (simp add: vm_step_def)
  next
    case (Inr cp)
    have "emits_only P s1 (snd (vm_alert_checks cfg clk vm cp mp mk mx s1))"
    proof (rule vm_alert_checks_emits)
      fix x assume "cp = Some x"
      show "P \<lparr>subject = ''VM CPU Alert'', body = VmCpuHigh (vm_name vm) x (vcpus vm),
               akey = ''vm_cpu_'' @ name_str (vm_name vm)\<rparr>" by (rule c)
    next
      fix x assume "mp = Some x"
      with \<open>vm_locals vm = Inr t\<close> t have "0 < mx" by (auto dest: vm_locals_max_pos)
      then show "P \<lparr>subject = ''VM Memory Alert'', body = VmMemHigh (vm_name vm) x mk mx,
               akey = ''vm_mem_'' @ name_str (vm_name vm)\<rparr>" by (rule m)
    qed
    with s1 have "emits_only P st (snd (vm_alert_checks cfg clk vm cp mp mk mx s1))"
      by (rule emits_only_trans)
    with Inr \<open>vm_locals vm = Inr t\<close> t est show ?thesis by (simp add: vm_step_def)
  qed
qed

lemma check_vms_emits:
  "(\<And>vm s. vm \<in> set vs \<Longrightarrow> emits_only P s (snd (vm_step cfg clk ival vm s))) \<Longrightarrow>
   emits_only P st (check_vms cfg clk ival vs st)"
proof (induction vs arbitrary: st)
  case Nil
  show ?case by (simp add: emits_only_refl)
next
  case (Cons v vs)
  have "emits_only P st (snd (vm_step cfg clk ival v st))"
    by (rule Cons.prems) simp
  moreover have "emits_only P (snd (vm_step cfg clk ival v st))
                   (check_vms cfg clk ival vs (snd (vm_step cfg clk ival v st)))"
    by (rule Cons.IH) (simp add: Cons.prems)
  ultimately show ?case
    by (simp add: emits_only_trans)
qed

lemma check_host_emits:
  assumes "P \<lparr>subject = ''Host CPU Alert'', body = HostCpuHigh (h_cpu_percent h), akey = ''host_cpu''\<rparr>"
    and "P \<lparr>subject = ''Host Memory Alert'', body = HostMemHigh (h_mem_percent h), akey = ''host_mem''\<rparr>"
  shows "emits_only P st (snd (check_host cfg clk h st))"
  unfolding check_host_def host_cpu_check_def host_mem_check_def
  by (intro then_do_emits threshold_alert_emits assms)

lemma proc_loop_emits_gen:
  assumes "\<And>p. p \<in> set ps \<Longrightarrow>
             P \<lparr>subject = ''Process CPU Alert'', body = ProcCpu (pname p) (pid p) (cpu p),
                akey = ''proc_cpu_'' @ show_int (pid p)\<rparr>"
    and "\<And>p. p \<in> set ps \<Longrightarrow>
             P \<lparr>subject = ''Process Memory Alert'', body = ProcMem (pname p) (pid p) (p_mem_percent p),
                akey = ''proc_mem_'' @ show_int (pid p)\<rparr>"
  shows "emits_only P st (snd (proc_loop cfg clk ps st))"
  using assms
proof (induction ps arbitrary: st)
  case Nil
  show ?case by (simp add: emits_only_refl)
next
  case (Cons p ps)
  have c: "\<And>s. emits_only P s (snd (proc_cpu_check cfg clk p s))"
    unfolding proc_cpu_check_def by (rule threshold_alert_emits) (rule Cons.prems(1), simp)
  have m: "\<And>s. emits_only P s (snd (proc_mem_check cfg clk p s))"
    unfolding proc_mem_check_def by (rule threshold_alert_emits) (rule Cons.prems(2), simp)
  have r: "\<And>s. emits_only P s (snd (proc_loop cfg clk ps s))"
    by (rule Cons.IH; rule Cons.prems; simp)
  show ?case
    unfolding proc_loop.simps by (intro then_do_emits c m r)
qed

lemma check_procs_emits:
  assumes "\<And>p :: process_snapshot.
              P \<lparr>subject = ''Process CPU Alert'', body = ProcCpu (pname p) (pid p) (cpu p),
                akey = ''proc_cpu_'' @ show_int (pid p)\<rparr>"
    and "\<And>p :: process_snapshot. P \<lparr>subject = ''Process Memory Alert'', body = ProcMem (pname p) (pid p) (p_mem_percent p),
                akey = ''proc_mem_'' @ show_int (pid p)\<rparr>"
  shows "emits_only P st (snd (check_procs cfg clk procs st))"
proof (cases "sorted_by_cpu_desc procs")
  case (Inl e)
  then show ?thesis by (simp add: check_procs_def emits_only_refl)
next
  case (Inr ranked)
  have "emits_only P st (snd (proc_loop cfg clk (take 20 ranked) st))"
    by (rule proc_loop_emits_gen) (rule assms)+
  with Inr show ?thesis by (simp add: check_procs_def)
qed

lemma check_and_alert_emits:
  assumes hc: "\<And>v. P \<lparr>subject = ''Host CPU Alert'', body = HostCpuHigh v, akey = ''host_cpu''\<rparr>"
    and hm: "\<And>v. P \<lparr>subject = ''Host Memory Alert'', body = HostMemHigh v, akey = ''host_mem''\<rparr>"
    and pc: "\<And>p :: process_snapshot. P \<lparr>subject = ''Process CPU Alert'', body = ProcCpu (pname p) (pid p) (cpu p),
                akey = ''proc_cpu_'' @ show_int (pid p)\<rparr>"
    and pm: "\<And>p :: process_snapshot. P \<lparr>subject = ''Process Memory Alert'', body = ProcMem (pname p) (pid p) (p_mem_percent p),
                akey = ''proc_mem_'' @ show_int (pid p)\<rparr>"
    and vm: "\<And>vm s. vm \<in> set (vms snap) \<Longrightarrow>
                emits_only P s (snd (vm_step cfg clk (snapshot_interval cfg snap) vm s))"
  shows "emits_only P st (check_and_alert cfg clk snap st)"
proof -
  have h: "emits_only P st (host_phase cfg clk snap st)"
    by (cases "host snap") (simp_all add: host_phase_def emits_only_refl check_host_emits hc hm)
  have p: "\<And>s. emits_only P s (proc_phase cfg clk snap s)"
    unfolding proc_phase_def by (rule check_procs_emits) (rule pc pm)+
  have v: "\<And>s. emits_only P s (vm_phase cfg clk snap s)"
    unfolding vm_phase_def by (rule check_vms_emits) (rule vm)
  show ?thesis
    unfolding check_and_alert_def
    by (rule emits_only_trans [OF h emits_only_trans [OF p v]])
qed

lemma py_int_exn: "py_int v = Inl e \<Longrightarrow> e = TypeError"
  by (cases v) auto

lemma vm_locals_exn: "vm_locals vm = Inl e \<Longrightarrow> e = TypeError"
  by (auto simp: vm_locals_def vm_mem_percent_exn split: sum.splits dest: py_int_exn)

lemma estimate_exn: "fst (vm_cpu_percent_from_delta name v iv st) = Inl e \<Longrightarrow> e = TypeError"
  by (auto simp: vm_cpu_percent_from_delta_def Let_def split: option.splits if_splits)

lemma then_do_exn:
  "fst r \<noteq> Some x \<Longrightarrow> (\<And>s. fst (f s) \<noteq> Some x) \<Longrightarrow> fst (then_do r f) \<noteq> Some x"
  by (cases r) (auto simp: then_do_def split: option.splits)

lemma vm_alert_checks_exn:
  "fst (vm_alert_checks cfg clk vm cp mp mk mx s) \<noteq> Some ZeroDivisionError"
  unfolding vm_alert_checks_def
  by (intro then_do_exn)
     (auto simp: vm_cpu_check_def vm_mem_check_def threshold_alert_exn cpu_time_delta_branch_def
        split: option.splits)

lemma vm_step_exn: "fst (vm_step cfg clk ival vm st) \<noteq> Some ZeroDivisionError"
proof (cases "vm_locals vm")
  case (Inl e)
  then show ?thesis using vm_locals_exn [OF Inl] by (simp add: vm_step_def)
next
  case (Inr t)
  obtain mx mk ct mp where t: "t = (mx, mk, ct, mp)" by (cases t) auto
  obtain r s1 where est: "vm_cpu_percent_from_delta (vm_name vm) ct ival st = (r, s1)"
    by (cases "vm_cpu_percent_from_delta (vm_name vm) ct ival st") auto
  show ?thesis
  proof (cases r)
    case (Inl e)
    with est have "e = TypeError" using estimate_exn [of "vm_name vm" ct ival st e] by simp
    with Inl Inr t est show ?thesis by (simp add: vm_step_def)
  next
    case r: (Inr cp)
    with Inr t est show ?thesis by (simp add: vm_step_def vm_alert_checks_exn)
  qed
qed


lemma sample_proc_fields [simp]:
  "cpu_key (sample_proc i c) = real_of_int c" "pid (sample_proc i c) = i"
  by (simp_all add: cpu_key_def sample_proc_def)


section \<open>Evaluating the sample snapshot\<close>

lemma then_do_baseline:
  "last_vm_cpu_time (snd r) = last_vm_cpu_time st \<Longrightarrow>
   (\<And>s. last_vm_cpu_time (snd (f s)) = last_vm_cpu_time s) \<Longrightarrow>
   last_vm_cpu_time (snd (then_do r f)) = last_vm_cpu_time st"
  by (cases r) (auto simp: then_do_def split: option.splits)

lemma check_host_baseline:
  "last_vm_cpu_time (snd (check_host cfg clk h st)) = last_vm_cpu_time st"
  unfolding check_host_def host_cpu_check_def host_mem_check_def
  by (intro then_do_baseline threshold_alert_baseline)

lemma proc_loop_baseline:
  "last_vm_cpu_time (snd (proc_loop cfg clk ps st)) = last_vm_cpu_time st"
proof (induction ps arbitrary: st)
  case Nil
  show ?case by simp
next
  case (Cons p ps)
  show ?case
    unfolding proc_loop.simps proc_cpu_check_def proc_mem_check_def
    by (intro then_do_baseline threshold_alert_baseline Cons.IH)
qed

lemma check_procs_baseline:
  "last_vm_cpu_time (snd (check_procs cfg clk procs st)) = last_vm_cpu_time st"
  by (simp add: check_procs_def proc_loop_baseline split: sum.splits)

lemma vm_alert_checks_baseline:
  "last_vm_cpu_time (snd (vm_alert_checks cfg clk vm cp mp mk mx st)) = last_vm_cpu_time st"
proof -
  have c: "last_vm_cpu_time
        (snd (case cp of None \<Rightarrow> (None, st) | Some c \<Rightarrow> vm_cpu_check cfg clk vm c st))
      = last_vm_cpu_time st"
    by (cases cp) (simp_all add: vm_cpu_check_def threshold_alert_baseline)
  have m: "\<And>s. last_vm_cpu_time
        (snd (case mp of None \<Rightarrow> (None, s) | Some x \<Rightarrow> vm_mem_check cfg clk vm x mk mx s))
      = last_vm_cpu_time s"
    by (cases mp) (simp_all add: vm_mem_check_def threshold_alert_baseline)
  have b: "\<And>s. last_vm_cpu_time (snd (cpu_time_delta_branch cfg vm s)) = last_vm_cpu_time s"
    by (simp add: delta_branch_snd)
  show ?thesis
    unfolding vm_alert_checks_def by (intro then_do_baseline c m b)
qed

lemma estimate_null_interval: "vm_cpu_percent_from_delta name v PNone st = (Inr None, st)"
  by (simp add: vm_cpu_percent_from_delta_def)

lemma vm_step_null_interval:
  "vm_step cfg clk PNone vm st =
     (case vm_locals vm of
        Inl e \<Rightarrow> (Some e, st)
      | Inr (mx, mk, ct, mp) \<Rightarrow> vm_alert_checks cfg clk vm None mp mk mx st)"
  by (simp add: vm_step_def estimate_null_interval split: sum.splits)

lemma vm_step_null_baseline:
  "last_vm_cpu_time (snd (vm_step cfg clk PNone vm st)) = last_vm_cpu_time st"
  by (simp add: vm_step_null_interval vm_alert_checks_baseline split: sum.splits prod.splits)

lemma check_vms_null_baseline:
  "last_vm_cpu_time (check_vms cfg clk PNone vs st) = last_vm_cpu_time st"
  by (induction vs arbitrary: st) (simp_all add: vm_step_null_baseline)

lemma vm_step_null_emits:
  "emits_only (\<lambda>a. subject a \<noteq> ''VM CPU Alert'') st (snd (vm_step cfg clk PNone vm st))"
proof (cases "vm_locals vm")
  case (Inl e)
  then show ?thesis by (simp add: vm_step_null_interval emits_only_refl)
next
  case (Inr t)
  obtain mx mk ct mp where t: "t = (mx, mk, ct, mp)" by (cases t) auto
  have "emits_only (\<lambda>a. subject a \<noteq> ''VM CPU Alert'') st
          (snd (vm_alert_checks cfg clk vm None mp mk mx st))"
    by (rule vm_alert_checks_emits) simp_all
  with Inr t show ?thesis by (simp add: vm_step_null_interval)
qed

lemma vm_mem_only:
  "vm_alert_checks cfg clk vm None (Some m) mk mx st = vm_mem_check cfg clk vm m mk mx st"
  by (simp add: vm_alert_checks_def delta_branch_id) (simp add: then_do_def)

lemma vm_half_step:
  "vm_step mem_config (const_clock 1000) PNone vm_half new_engine
     = (None, new_engine\<lparr>last_alert_time := [''vm_mem_vmA'' \<mapsto> 1000],
                 alerts := [\<lparr>subject = ''VM Memory Alert'',
                              body = VmMemHigh (Some ''vmA'') 50 50 100,
                              akey = ''vm_mem_vmA''\<rparr>],
                 tick := 2\<rparr>)"
  by (simp add: vm_step_def vm_locals_def vm_half_def py_or0_def vm_mem_percent_def py_truediv_def
      estimate_null_interval vm_alert_checks_def then_do_def vm_mem_check_def threshold_alert_def
      py_ge_def or_100_def mem_config_def default_config_def throttled_alert_def throttle_ok_def
      const_clock_def new_engine_def emit_alert_def send_email_def name_str_def
      cpu_time_delta_branch_def Let_def)

lemma vm_bad_step: "vm_step cfg clk ival vm_bad st = (Some TypeError, st)"
  by (simp add: vm_step_def vm_locals_def vm_bad_def py_or0_def)

lemma sample_eval:
  "check_and_alert mem_config (const_clock 1000) null_interval_snapshot new_engine
     = new_engine\<lparr>last_alert_time := [''vm_mem_vmA'' \<mapsto> 1000],
                 alerts := [\<lparr>subject = ''VM Memory Alert'',
                              body = VmMemHigh (Some ''vmA'') 50 50 100,
                              akey = ''vm_mem_vmA''\<rparr>],
                 tick := 2\<rparr>"
proof -
  have h: "host_phase mem_config (const_clock 1000) null_interval_snapshot new_engine = new_engine"
    by (simp add: host_phase_def null_interval_snapshot_def check_host_def host_cpu_check_def
        threshold_alert_def py_ge_def bad_host_def then_do_def)
  have p: "proc_phase mem_config (const_clock 1000) null_interval_snapshot new_engine = new_engine"
    by (simp add: proc_phase_def null_interval_snapshot_def check_procs_def sorted_by_cpu_desc_def
        ranked_procs_def)
  have i: "snapshot_interval mem_config null_interval_snapshot = PNone"
    by (simp add: snapshot_interval_def null_interval_snapshot_def)
  show ?thesis
    unfolding check_and_alert_def h p vm_phase_def i
    by (simp add: null_interval_snapshot_def vm_bad_step vm_half_step)
qed

section \<open>Alert keys of processes\<close>














section \<open>The process cap\<close>



section \<open>VM memory without a maximum\<close>

text \<open>
  C6: for a VM record whose \<^verbatim>\<open>max_mem_kb\<close> is 0, the division is not performed (the
  memory percent is \<^verbatim>\<open>None\<close> and the turn of the loop does not raise
  \<^verbatim>\<open>ZeroDivisionError\<close>) and the turn emits no VM memory alert, whatever \<^verbatim>\<open>mem_kb\<close> and the
  threshold are; and every VM memory alert that an evaluation emits shows a positive
  \<^verbatim>\<open>max_mem_kb\<close> in its message.
\<close>

theorem vm_zero_max_mem_no_memory_alert:

  "(py_int (py_or0 (maxMemKB vm)) = Inr 0 \<longrightarrow>
      fst (vm_step cfg clk ival vm st) \<noteq> Some ZeroDivisionError
    \<and> (\<forall>a \<in> set (new_alerts st (snd (vm_step cfg clk ival vm st))). subject a \<noteq> ''VM Memory Alert''))
   \<and> vm_mem_percent mem_kb 0 = Inr None
   \<and> (\<forall>a \<in> set (new_alerts st (check_and_alert cfg clk snap st)). mem_alert_ok a)"
proof (intro conjI impI ballI)
  show "vm_mem_percent mem_kb 0 = Inr None" by (simp add: vm_mem_percent_def)
next
  fix a assume "a \<in> set (new_alerts st (check_and_alert cfg clk snap st))"
  moreover have "emits_only mem_alert_ok st (check_and_alert cfg clk snap st)"
    by (rule check_and_alert_emits) (simp_all add: mem_alert_ok_def vm_step_emits)
  ultimately show "mem_alert_ok a" by (rule emits_only_new_alerts [rotated])
next
  assume z: "py_int (py_or0 (maxMemKB vm)) = Inr 0"
  show "fst (vm_step cfg clk ival vm st) \<noteq> Some ZeroDivisionError" by (rule vm_step_exn)
next
  fix a
  assume z: "py_int (py_or0 (maxMemKB vm)) = Inr 0"
    and a: "a \<in> set (new_alerts st (snd (vm_step cfg clk ival vm st)))"
  have "emits_only (\<lambda>a. subject a \<noteq> ''VM Memory Alert'') st (snd (vm_step cfg clk ival vm st))"
  proof (cases "vm_locals vm")
    case (Inl e)
    then show ?thesis by (simp add: vm_step_def emits_only_refl)
  next
    case (Inr t)
    obtain mx mk ct mp where t: "t = (mx, mk, ct, mp)" by (cases t) auto
    from Inr t z have mx: "mx = 0" "mp = None"
      by (auto simp: vm_locals_def vm_mem_percent_def split: sum.splits if_splits)
    obtain r s1 where est: "vm_cpu_percent_from_delta (vm_name vm) ct ival st = (r, s1)"
      by (cases "vm_cpu_percent_from_delta (vm_name vm) ct ival st") auto
    have s1: "emits_only (\<lambda>a. subject a \<noteq> ''VM Memory Alert'') st s1"
      using estimate_alerts [of "vm_name vm" ct ival st] est by (simp add: emits_only_same)
    show ?thesis
    proof (cases r)
      case (Inl e)
      with Inr t est s1 show ?thesis by (simp add: vm_step_def)
    next
      case (Inr cp)
      have "emits_only (\<lambda>a. subject a \<noteq> ''VM Memory Alert'') s1
              (snd (vm_alert_checks cfg clk vm cp mp mk mx s1))"
        by (rule vm_alert_checks_emits) (simp_all add: mx)
      with s1 have "emits_only (\<lambda>a. subject a \<noteq> ''VM Memory Alert'') st
              (snd (vm_alert_checks cfg clk vm cp mp mk mx s1))"
        by (rule emits_only_trans)
      with Inr \<open>vm_locals vm = Inr t\<close> t est show ?thesis by (simp add: vm_step_def)
    qed
  qed
  from emits_only_new_alerts [OF this a] show "subject a \<noteq> ''VM Memory Alert''" .
qed

theorem vm_zero_max_mem_no_memory_alert_witness:
  "py_int (py_or0 (maxMemKB vm_no_max)) = Inr 0
   \<and> fst (vm_step (default_config\<lparr>vm_memory_percent := Some 0\<rparr>) (const_clock 1000) (PFloat 2)
        vm_no_max new_engine) \<noteq> Some ZeroDivisionError
   \<and> ''VM Memory Alert'' \<notin> subject `
        set (new_alerts new_engine
          (snd (vm_step (default_config\<lparr>vm_memory_percent := Some 0\<rparr>) (const_clock 1000)
                  (PFloat 2) vm_no_max new_engine)))
   \<and> mem_alert_ok \<lparr>subject = ''VM Memory Alert'', body = VmMemHigh (Some ''vmA'') 50 50 100,
                    akey = ''vm_mem_vmA''\<rparr>"
proof -
  have z: "py_int (py_or0 (maxMemKB vm_no_max)) = Inr 0"
    by (simp add: vm_no_max_def py_or0_def)
  note inst = vm_zero_max_mem_no_memory_alert
         [of vm_no_max "default_config\<lparr>vm_memory_percent := Some 0\<rparr>" "const_clock 1000"
             "PFloat 2" new_engine 0]
  from inst z have e:
    "fst (vm_step (default_config\<lparr>vm_memory_percent := Some 0\<rparr>) (const_clock 1000) (PFloat 2)
        vm_no_max new_engine) \<noteq> Some ZeroDivisionError"
    by (rule conjunct1 [OF mp [OF conjunct1]])
  from inst z have quiet:
    "\<forall>a \<in> set (new_alerts new_engine
          (snd (vm_step (default_config\<lparr>vm_memory_percent := Some 0\<rparr>) (const_clock 1000)
                  (PFloat 2) vm_no_max new_engine))). subject a \<noteq> ''VM Memory Alert''"
    by (rule conjunct2 [OF mp [OF conjunct1]])
  have none:
    "''VM Memory Alert'' \<notin> subject `
        set (new_alerts new_engine
          (snd (vm_step (default_config\<lparr>vm_memory_percent := Some 0\<rparr>) (const_clock 1000)
                  (PFloat 2) vm_no_max new_engine)))"
  proof
    assume "''VM Memory Alert'' \<in> subject `
        set (new_alerts new_engine
          (snd (vm_step (default_config\<lparr>vm_memory_percent := Some 0\<rparr>) (const_clock 1000)
                  (PFloat 2) vm_no_max new_engine)))"
    then obtain a where s: "''VM Memory Alert'' = subject a"
      and a: "a \<in> set (new_alerts new_engine
          (snd (vm_step (default_config\<lparr>vm_memory_percent := Some 0\<rparr>) (const_clock 1000)
                  (PFloat 2) vm_no_max new_engine)))"
      by (rule imageE)
    from quiet a have "subject a \<noteq> ''VM Memory Alert''" by (rule bspec)
    with s show False by simp
  qed
  from vm_zero_max_mem_no_memory_alert
         [of vm_no_max mem_config "const_clock 1000" "PFloat 2" new_engine 0
             null_interval_snapshot]
  have all_ok:
    "\<forall>a \<in> set (new_alerts new_engine
         (check_and_alert mem_config (const_clock 1000) null_interval_snapshot new_engine)).
       mem_alert_ok a"
    by (rule conjunct2 [OF conjunct2])
  have "\<lparr>subject = ''VM Memory Alert'', body = VmMemHigh (Some ''vmA'') 50 50 100,
          akey = ''vm_mem_vmA''\<rparr>
        \<in> set (new_alerts new_engine
         (check_and_alert mem_config (const_clock 1000) null_interval_snapshot new_engine))"
    by (simp add: sample_eval new_alerts_def) (simp add: new_engine_def)
  with all_ok have ok:
    "mem_alert_ok \<lparr>subject = ''VM Memory Alert'', body = VmMemHigh (Some ''vmA'') 50 50 100,
                    akey = ''vm_mem_vmA''\<rparr>"
    by (rule bspec)
  from z e none ok show ?thesis by (intro conjI)
qed

section \<open>Isolation of the phases\<close>

lemma check_vms_append:
  "check_vms cfg clk ival (xs @ ys) st = check_vms cfg clk ival ys (check_vms cfg clk ival xs st)"
  by (induction xs arbitrary: st) simp_all

lemma vm_locals_bad_cpu_time: "cpuTime vm = PObj \<Longrightarrow> vm_locals vm = Inl TypeError"
  by (auto simp: vm_locals_def py_or0_def split: sum.splits dest: py_int_exn)

lemma check_host_bad_cpu:
  "num_of (h_cpu_percent h) = None \<Longrightarrow> check_host cfg clk h st = (Some TypeError, st)"
  by (simp add: check_host_def host_cpu_check_def threshold_alert_def py_ge_def then_do_def)

text \<open>
  C7: the VM loop goes on after any turn, from the state that turn left, whether the turn
  raised or not; in particular a record whose \<^verbatim>\<open>cpuTime\<close> is not a number raises
  \<^verbatim>\<open>TypeError\<close> before anything is changed, and the other records are evaluated as if it
  were not in the list. When the host checks raise, the process pass and the VM pass run
  from the state the host checks left; in particular a host whose \<^verbatim>\<open>cpu_percent\<close> is not a
  number is evaluated like an absent host.
\<close>

theorem phases_isolated:
  "check_vms cfg clk ival (pre @ vm # post) st
     = check_vms cfg clk ival post (snd (vm_step cfg clk ival vm (check_vms cfg clk ival pre st)))
   \<and> (cpuTime bad = PObj \<longrightarrow>
        vm_step cfg clk ival bad s = (Some TypeError, s)
      \<and> check_vms cfg clk ival (pre @ bad # post) st = check_vms cfg clk ival (pre @ post) st)
   \<and> (host snap = Some h \<and> fst (check_host cfg clk h st) = Some e \<longrightarrow>
        check_and_alert cfg clk snap st
          = check_vms cfg clk (snapshot_interval cfg snap) (vms snap)
              (snd (check_procs cfg clk (processes snap) (snd (check_host cfg clk h st)))))
   \<and> (host snap = Some h \<and> num_of (h_cpu_percent h) = None \<longrightarrow>
        check_host cfg clk h st = (Some TypeError, st)
      \<and> check_and_alert cfg clk snap st = check_and_alert cfg clk (snap\<lparr>host := None\<rparr>) st)"
proof (intro conjI impI)
  show "check_vms cfg clk ival (pre @ vm # post) st
     = check_vms cfg clk ival post (snd (vm_step cfg clk ival vm (check_vms cfg clk ival pre st)))"
    by (simp add: check_vms_append)
next
  assume "cpuTime bad = PObj"
  then show "vm_step cfg clk ival bad s = (Some TypeError, s)"
    by (simp add: vm_step_def vm_locals_bad_cpu_time)
next
  assume b: "cpuTime bad = PObj"
  have "\<And>s. snd (vm_step cfg clk ival bad s) = s"
    using b by (simp add: vm_step_def vm_locals_bad_cpu_time)
  then show "check_vms cfg clk ival (pre @ bad # post) st = check_vms cfg clk ival (pre @ post) st"
    by (simp add: check_vms_append)
next
  assume "host snap = Some h \<and> fst (check_host cfg clk h st) = Some e"
  then show "check_and_alert cfg clk snap st
          = check_vms cfg clk (snapshot_interval cfg snap) (vms snap)
              (snd (check_procs cfg clk (processes snap) (snd (check_host cfg clk h st))))"
    by (simp add: check_and_alert_def vm_phase_def proc_phase_def host_phase_def)
next
  assume "host snap = Some h \<and> num_of (h_cpu_percent h) = None"
  then show "check_host cfg clk h st = (Some TypeError, st)"
    by (simp add: check_host_bad_cpu)
next
  assume "host snap = Some h \<and> num_of (h_cpu_percent h) = None"
  then show "check_and_alert cfg clk snap st = check_and_alert cfg clk (snap\<lparr>host := None\<rparr>) st"
    by (simp add: check_and_alert_def vm_phase_def proc_phase_def host_phase_def
        snapshot_interval_def check_host_bad_cpu)
qed

theorem phases_isolated_witness:
  "cpuTime vm_bad = PObj
   \<and> check_vms mem_config (const_clock 1000) PNone ([] @ vm_bad # [vm_half]) new_engine
       = check_vms mem_config (const_clock 1000) PNone ([] @ [vm_half]) new_engine
   \<and> host null_interval_snapshot = Some bad_host
   \<and> check_host mem_config (const_clock 1000) bad_host new_engine = (Some TypeError, new_engine)
   \<and> check_and_alert mem_config (const_clock 1000) null_interval_snapshot new_engine
       = check_and_alert mem_config (const_clock 1000) (null_interval_snapshot\<lparr>host := None\<rparr>)
           new_engine
   \<and> check_and_alert mem_config (const_clock 1000) null_interval_snapshot new_engine
       = check_vms mem_config (const_clock 1000)
           (snapshot_interval mem_config null_interval_snapshot) (vms null_interval_snapshot)
           (snd (check_procs mem_config (const_clock 1000) (processes null_interval_snapshot)
              (snd (check_host mem_config (const_clock 1000) bad_host new_engine))))
   \<and> alerts (check_and_alert mem_config (const_clock 1000) null_interval_snapshot new_engine)
       = [\<lparr>subject = ''VM Memory Alert'', body = VmMemHigh (Some ''vmA'') 50 50 100,
           akey = ''vm_mem_vmA''\<rparr>]"
proof -
  have b: "cpuTime vm_bad = PObj"
    by (simp add: vm_bad_def)
  have h: "host null_interval_snapshot = Some bad_host \<and> num_of (h_cpu_percent bad_host) = None"
    by (simp add: null_interval_snapshot_def bad_host_def)
  note inst = phases_isolated
      [of mem_config "const_clock 1000" PNone "[]" vm_bad "[vm_half]" new_engine vm_bad new_engine
          null_interval_snapshot bad_host TypeError]
  from inst b have vms_part:
    "check_vms mem_config (const_clock 1000) PNone ([] @ vm_bad # [vm_half]) new_engine
       = check_vms mem_config (const_clock 1000) PNone ([] @ [vm_half]) new_engine"
    by (rule conjunct2 [OF mp [OF conjunct1 [OF conjunct2]]])
  from inst h have host_part:
    "check_host mem_config (const_clock 1000) bad_host new_engine = (Some TypeError, new_engine)
     \<and> check_and_alert mem_config (const_clock 1000) null_interval_snapshot new_engine
       = check_and_alert mem_config (const_clock 1000) (null_interval_snapshot\<lparr>host := None\<rparr>)
           new_engine"
    by (rule mp [OF conjunct2 [OF conjunct2 [OF conjunct2]]])
  from host_part h have raised:
    "host null_interval_snapshot = Some bad_host
     \<and> fst (check_host mem_config (const_clock 1000) bad_host new_engine) = Some TypeError"
    by simp
  from inst have
    "host null_interval_snapshot = Some bad_host
     \<and> fst (check_host mem_config (const_clock 1000) bad_host new_engine) = Some TypeError \<longrightarrow>
     check_and_alert mem_config (const_clock 1000) null_interval_snapshot new_engine
       = check_vms mem_config (const_clock 1000)
           (snapshot_interval mem_config null_interval_snapshot) (vms null_interval_snapshot)
           (snd (check_procs mem_config (const_clock 1000) (processes null_interval_snapshot)
              (snd (check_host mem_config (const_clock 1000) bad_host new_engine))))"
    by (rule conjunct1 [OF conjunct2 [OF conjunct2]])
  from mp [OF this raised] have go_on:
    "check_and_alert mem_config (const_clock 1000) null_interval_snapshot new_engine
       = check_vms mem_config (const_clock 1000)
           (snapshot_interval mem_config null_interval_snapshot) (vms null_interval_snapshot)
           (snd (check_procs mem_config (const_clock 1000) (processes null_interval_snapshot)
              (snd (check_host mem_config (const_clock 1000) bad_host new_engine))))" .
  have ev: "alerts (check_and_alert mem_config (const_clock 1000) null_interval_snapshot new_engine)
       = [\<lparr>subject = ''VM Memory Alert'', body = VmMemHigh (Some ''vmA'') 50 50 100,
           akey = ''vm_mem_vmA''\<rparr>]"
    by (simp add: sample_eval)
  from h have h1: "host null_interval_snapshot = Some bad_host" by (rule conjunct1)
  from host_part have h2:
    "check_host mem_config (const_clock 1000) bad_host new_engine = (Some TypeError, new_engine)"
    by (rule conjunct1)
  from host_part have h3:
    "check_and_alert mem_config (const_clock 1000) null_interval_snapshot new_engine
       = check_and_alert mem_config (const_clock 1000) (null_interval_snapshot\<lparr>host := None\<rparr>)
           new_engine"
    by (rule conjunct2)
  from b vms_part h1 h2 h3 go_on ev show ?thesis by (intro conjI)
qed

section \<open>The option \<open>cpu_time_delta_ns\<close>\<close>

lemma throttle_ok_delta_opt:
  "throttle_ok (cfg\<lparr>vm_cpu_time_delta_ns := x\<rparr>) = throttle_ok cfg"
  by (intro ext) (simp add: throttle_ok_def)

lemma emit_alert_delta_opt:
  "emit_alert (cfg\<lparr>vm_cpu_time_delta_ns := x\<rparr>) = emit_alert cfg"
  by (intro ext) (simp add: emit_alert_def send_email_def)

lemma throttled_alert_delta_opt:
  "throttled_alert (cfg\<lparr>vm_cpu_time_delta_ns := x\<rparr>) = throttled_alert cfg"
  by (intro ext) (simp add: throttled_alert_def throttle_ok_delta_opt emit_alert_delta_opt cong: prod.case_cong if_cong)

lemma threshold_alert_delta_opt:
  "threshold_alert (cfg\<lparr>vm_cpu_time_delta_ns := x\<rparr>) = threshold_alert cfg"
  by (intro ext) (simp add: threshold_alert_def throttled_alert_delta_opt cong: sum.case_cong if_cong)

lemma host_checks_delta_opt:
  "host_cpu_check (cfg\<lparr>vm_cpu_time_delta_ns := x\<rparr>) = host_cpu_check cfg"
  "host_mem_check (cfg\<lparr>vm_cpu_time_delta_ns := x\<rparr>) = host_mem_check cfg"
  by (intro ext, simp add: host_cpu_check_def host_mem_check_def threshold_alert_delta_opt)+

lemma check_host_delta_opt:
  "check_host (cfg\<lparr>vm_cpu_time_delta_ns := x\<rparr>) = check_host cfg"
  by (intro ext) (simp add: check_host_def host_checks_delta_opt)

lemma proc_checks_delta_opt:
  "proc_cpu_check (cfg\<lparr>vm_cpu_time_delta_ns := x\<rparr>) = proc_cpu_check cfg"
  "proc_mem_check (cfg\<lparr>vm_cpu_time_delta_ns := x\<rparr>) = proc_mem_check cfg"
  by (intro ext, simp add: proc_cpu_check_def proc_mem_check_def threshold_alert_delta_opt)+

lemma proc_loop_delta_opt:
  "proc_loop (cfg\<lparr>vm_cpu_time_delta_ns := x\<rparr>) clk ps = proc_loop cfg clk ps"
proof (induction ps)
  case Nil
  show ?case by (intro ext) simp
next
  case (Cons p ps)
  show ?case by (intro ext) (simp add: proc_checks_delta_opt Cons.IH)
qed

lemma check_procs_delta_opt:
  "check_procs (cfg\<lparr>vm_cpu_time_delta_ns := x\<rparr>) = check_procs cfg"
  by (intro ext) (simp add: check_procs_def proc_loop_delta_opt cong: sum.case_cong if_cong)

lemma delta_branch_result: "cpu_time_delta_branch cfg vm = (\<lambda>st. (None, st))"
  by (intro ext) (simp add: cpu_time_delta_branch_def)

lemma vm_checks_delta_opt:
  "vm_cpu_check (cfg\<lparr>vm_cpu_time_delta_ns := x\<rparr>) = vm_cpu_check cfg"
  "vm_mem_check (cfg\<lparr>vm_cpu_time_delta_ns := x\<rparr>) = vm_mem_check cfg"
  by (intro ext, simp add: vm_cpu_check_def vm_mem_check_def threshold_alert_delta_opt)+

lemma vm_alert_checks_delta_opt:
  "vm_alert_checks (cfg\<lparr>vm_cpu_time_delta_ns := x\<rparr>) = vm_alert_checks cfg"
  by (intro ext) (simp add: vm_alert_checks_def vm_checks_delta_opt delta_branch_result cong: option.case_cong)

lemma vm_step_delta_opt:
  "vm_step (cfg\<lparr>vm_cpu_time_delta_ns := x\<rparr>) = vm_step cfg"
  by (intro ext) (simp add: vm_step_def vm_alert_checks_delta_opt cong: sum.case_cong prod.case_cong)

lemma check_vms_delta_opt:
  "check_vms (cfg\<lparr>vm_cpu_time_delta_ns := x\<rparr>) clk ival vs st = check_vms cfg clk ival vs st"
  by (induction vs arbitrary: st) (simp_all add: vm_step_delta_opt)

text \<open>
  C8: whatever value \<^verbatim>\<open>vm_alerts.cpu_time_delta_ns\<close> is set to, an evaluation ends in the
  same state (the same alerts emitted, the same throttle times, the same baselines, the
  same number of clock readings) as with the option absent.
\<close>

theorem cpu_time_delta_option_unused:
  "check_and_alert (cfg\<lparr>vm_cpu_time_delta_ns := Some thr\<rparr>) clk snap st
     = check_and_alert (cfg\<lparr>vm_cpu_time_delta_ns := None\<rparr>) clk snap st"
  by (simp add: check_and_alert_def vm_phase_def proc_phase_def host_phase_def
      snapshot_interval_def check_vms_delta_opt check_procs_delta_opt check_host_delta_opt
      cong: option.case_cong)

theorem cpu_time_delta_option_unused_witness:
  "check_and_alert (mem_config\<lparr>vm_cpu_time_delta_ns := Some 1000000\<rparr>) (const_clock 1000)
       null_interval_snapshot new_engine
     = new_engine\<lparr>last_alert_time := [''vm_mem_vmA'' \<mapsto> 1000],
                 alerts := [\<lparr>subject = ''VM Memory Alert'',
                              body = VmMemHigh (Some ''vmA'') 50 50 100,
                              akey = ''vm_mem_vmA''\<rparr>],
                 tick := 2\<rparr>"
proof -
  have "mem_config\<lparr>vm_cpu_time_delta_ns := None\<rparr> = mem_config"
    by (simp add: mem_config_def default_config_def)
  with cpu_time_delta_option_unused
         [where cfg = mem_config and thr = 1000000 and clk = "const_clock 1000"
            and snap = null_interval_snapshot and st = new_engine]
  show ?thesis by (simp only: sample_eval)
qed

section \<open>Inclusive thresholds\<close>







section \<open>A snapshot whose interval is \<open>None\<close>\<close>

text \<open>
  C10: when the snapshot has the key \<^verbatim>\<open>interval\<close> with the value \<^verbatim>\<open>None\<close>, the interval
  handed to the estimator is \<^verbatim>\<open>None\<close> whatever \<^verbatim>\<open>poll_interval\<close> is (the fallback is what
  a snapshot without the key gets); the evaluation then leaves every VM baseline as it
  was and emits no VM CPU alert, and a VM record with a defined memory percent still gets
  exactly its memory check.
\<close>

theorem null_interval_suppresses_vm_cpu:
  assumes "interval snap = Some PNone"
  shows "snapshot_interval cfg snap = PNone
    \<and> snapshot_interval cfg (snap\<lparr>interval := None\<rparr>)
         = (case poll_interval cfg of None \<Rightarrow> PInt 2 | Some r \<Rightarrow> PFloat r)
    \<and> last_vm_cpu_time (check_and_alert cfg clk snap st) = last_vm_cpu_time st
    \<and> (\<forall>a \<in> set (new_alerts st (check_and_alert cfg clk snap st)). subject a \<noteq> ''VM CPU Alert'')
    \<and> (\<forall>vm s mx mk ct m. vm_locals vm = Inr (mx, mk, ct, Some m) \<longrightarrow>
          vm_step cfg clk (snapshot_interval cfg snap) vm s = vm_mem_check cfg clk vm m mk mx s)"
proof -
  have iv: "snapshot_interval cfg snap = PNone"
    using assms by (simp add: snapshot_interval_def)
  have base: "last_vm_cpu_time (check_and_alert cfg clk snap st) = last_vm_cpu_time st"
    by (simp add: check_and_alert_def vm_phase_def proc_phase_def host_phase_def iv
        check_vms_null_baseline check_procs_baseline check_host_baseline split: option.splits)
  have "emits_only (\<lambda>a. subject a \<noteq> ''VM CPU Alert'') st (check_and_alert cfg clk snap st)"
    by (rule check_and_alert_emits) (simp_all add: iv vm_step_null_emits)
  then have quiet: "\<forall>a \<in> set (new_alerts st (check_and_alert cfg clk snap st)).
      subject a \<noteq> ''VM CPU Alert''"
    by (rule emits_only_new_alerts [THEN ballI])
  have mem: "\<forall>vm s mx mk ct m. vm_locals vm = Inr (mx, mk, ct, Some m) \<longrightarrow>
          vm_step cfg clk (snapshot_interval cfg snap) vm s = vm_mem_check cfg clk vm m mk mx s"
    by (simp add: iv vm_step_null_interval vm_mem_only)
  have fb: "snapshot_interval cfg (snap\<lparr>interval := None\<rparr>)
         = (case poll_interval cfg of None \<Rightarrow> PInt 2 | Some r \<Rightarrow> PFloat r)"
    by (simp add: snapshot_interval_def)
  from iv fb base quiet mem show ?thesis by (intro conjI)
qed

theorem null_interval_suppresses_vm_cpu_witness:
  "interval null_interval_snapshot = Some PNone
   \<and> snapshot_interval mem_config null_interval_snapshot = PNone
   \<and> last_vm_cpu_time
        (check_and_alert mem_config (const_clock 1000) null_interval_snapshot new_engine)
       = last_vm_cpu_time new_engine
   \<and> vm_locals vm_half = Inr (100, 50, 1000000000, Some 50)
   \<and> vm_step mem_config (const_clock 1000) (snapshot_interval mem_config null_interval_snapshot)
        vm_half new_engine
       = vm_mem_check mem_config (const_clock 1000) vm_half 50 50 100 new_engine
   \<and> alerts (check_and_alert mem_config (const_clock 1000) null_interval_snapshot new_engine)
       = [\<lparr>subject = ''VM Memory Alert'', body = VmMemHigh (Some ''vmA'') 50 50 100,
           akey = ''vm_mem_vmA''\<rparr>]"
proof -
  have i: "interval null_interval_snapshot = Some PNone"
    by (simp add: null_interval_snapshot_def)
  note inst = null_interval_suppresses_vm_cpu
      [OF i, of mem_config "const_clock 1000" new_engine]
  from inst have iv: "snapshot_interval mem_config null_interval_snapshot = PNone"
    by (rule conjunct1)
  from inst have base:
    "last_vm_cpu_time
        (check_and_alert mem_config (const_clock 1000) null_interval_snapshot new_engine)
       = last_vm_cpu_time new_engine"
    by (rule conjunct1 [OF conjunct2 [OF conjunct2]])
  have ev: "alerts (check_and_alert mem_config (const_clock 1000) null_interval_snapshot new_engine)
       = [\<lparr>subject = ''VM Memory Alert'', body = VmMemHigh (Some ''vmA'') 50 50 100,
           akey = ''vm_mem_vmA''\<rparr>]"
    by (simp add: sample_eval)
  have loc: "vm_locals vm_half = Inr (100, 50, 1000000000, Some 50)"
    by (simp add: vm_locals_def vm_half_def py_or0_def vm_mem_percent_def py_truediv_def)
  from inst have
    "\<forall>vm s mx mk ct m. vm_locals vm = Inr (mx, mk, ct, Some m) \<longrightarrow>
       vm_step mem_config (const_clock 1000) (snapshot_interval mem_config null_interval_snapshot)
         vm s = vm_mem_check mem_config (const_clock 1000) vm m mk mx s"
    by (rule conjunct2 [OF conjunct2 [OF conjunct2 [OF conjunct2]]])
  then have
    "vm_locals vm_half = Inr (100, 50, 1000000000, Some 50) \<longrightarrow>
       vm_step mem_config (const_clock 1000) (snapshot_interval mem_config null_interval_snapshot)
         vm_half new_engine = vm_mem_check mem_config (const_clock 1000) vm_half 50 50 100 new_engine"
    by (elim allE)
  from mp [OF this loc] have memchk:
    "vm_step mem_config (const_clock 1000) (snapshot_interval mem_config null_interval_snapshot)
        vm_half new_engine
       = vm_mem_check mem_config (const_clock 1000) vm_half 50 50 100 new_engine" .
  from i iv base loc memchk ev show ?thesis by (intro conjI)
qed

end
